theory Spec2Isabelle
  imports Main "HOL-Library.Multiset"
begin

section \<open>Python values the batch script works with\<close>

text \<open>
  The script \<^verbatim>\<open>dolma_batch_process.py\<close> is modelled function by function. Exceptions are
  values: \<open>py_exception\<close> lists the subclasses of Python's \<^verbatim>\<open>Exception\<close> that the script
  and its libraries raise, and \<open>raised\<close> adds \<^verbatim>\<open>SystemExit\<close>, which \<^verbatim>\<open>argparse\<close> raises
  and which an \<^verbatim>\<open>except Exception\<close> clause does not catch.
\<close>

datatype py_exception =
    AttributeError string
  | TypeError string
  | OSError string
  | LibraryError string

datatype raised = SystemExit int | Exception py_exception

subsection \<open>String methods\<close>

text \<open>\<^verbatim>\<open>sep.join(parts)\<close> on a list of strings.\<close>

fun str_join :: "string \<Rightarrow> string list \<Rightarrow> string" where
  "str_join sep [] = []"
| "str_join sep [p] = p"
| "str_join sep (p # q # ps) = p @ sep @ str_join sep (q # ps)"

text \<open>
  \<^verbatim>\<open>s.replace(old, new)\<close> for a non-empty \<open>old\<close>: one pass from the left, and the scan
  resumes after each replaced occurrence, so the replacements do not overlap.
\<close>

function str_replace :: "string \<Rightarrow> string \<Rightarrow> string \<Rightarrow> string" where
  "str_replace old new [] = []"
| "str_replace old new (c # cs) =
     (if old \<noteq> [] \<and> take (length old) (c # cs) = old
      then new @ str_replace old new (drop (length old) (c # cs))
      else c # str_replace old new cs)"
  by pat_completeness auto
termination
  by (relation "measure (\<lambda>(old, new, s). length s)") auto

text \<open>\<^verbatim>\<open>s.strip(chars)\<close>: drop the characters of \<open>chars\<close> from both ends.\<close>

definition str_strip :: "string \<Rightarrow> string \<Rightarrow> string" where
  "str_strip chars s =
     rev (dropWhile (\<lambda>c. c \<in> set chars) (rev (dropWhile (\<lambda>c. c \<in> set chars) s)))"

text \<open>\<^verbatim>\<open>s.lower()\<close> on the letters A to Z; every other character is kept.\<close>

definition char_lower :: "char \<Rightarrow> char" where
  "char_lower c =
     (case map_of (zip ''ABCDEFGHIJKLMNOPQRSTUVWXYZ'' ''abcdefghijklmnopqrstuvwxyz'') c of
        None \<Rightarrow> c
      | Some d \<Rightarrow> d)"

definition str_lower :: "string \<Rightarrow> string" where
  "str_lower s = map char_lower s"

section \<open>The domain resolver\<close>

text \<open>
  \<^verbatim>\<open>tldextract.extract\<close> is a library function: it is a parameter of the model, a function
  from the URL to the named tuple it returns or to the exception it raises. Of the tuple
  the script reads the fields \<^verbatim>\<open>domain\<close> and \<^verbatim>\<open>suffix\<close>.
\<close>

record extract_result =
  subdomain :: string
  domain :: string
  suffix :: string

type_synonym tldextract = "string \<Rightarrow> py_exception + extract_result"

text \<open>
  \<^verbatim>\<open>try: body except Exception: handler\<close>. The body's exceptions are of type
  \<open>py_exception\<close>, all of them subclasses of \<^verbatim>\<open>Exception\<close>, so the handler sees each one.
\<close>

definition try_except :: "py_exception + 'a \<Rightarrow> (py_exception \<Rightarrow> py_exception + 'a) \<Rightarrow> py_exception + 'a" where
  "try_except body handler = (case body of Inl e \<Rightarrow> handler e | Inr v \<Rightarrow> Inr v)"

text \<open>
  \<^verbatim>\<open>extract_domain_udf(url)\<close>, lines 22 to 35. \<open>None\<close> is Python's \<^verbatim>\<open>None\<close>; an empty
  string is falsy, which is what \<^verbatim>\<open>not extracted.domain\<close> tests.
\<close>

definition extract_domain_udf :: "tldextract \<Rightarrow> string option \<Rightarrow> py_exception + string option" where
  "extract_domain_udf tld url =
     (case url of
        None \<Rightarrow> Inr None
      | Some u \<Rightarrow>
          try_except
            (case tld u of
               Inl e \<Rightarrow> Inl e
             | Inr extracted \<Rightarrow>
                 if domain extracted = [] \<or> suffix extracted = [] then Inr None
                 else Inr (Some (domain extracted @ ''.'' @ suffix extracted)))
            (\<lambda>e. Inr None))"

section \<open>The repository identifier\<close>

text \<open>
  Lines 151 to 155 of \<^verbatim>\<open>upload_to_hf\<close>, as functions of the three attributes they read:
  \<^verbatim>\<open>args.hf_username\<close>, \<^verbatim>\<open>args.hf_base_dataset_name\<close> and \<^verbatim>\<open>args.hf_variant\<close> (\<open>None\<close> when the
  option is not given). The variant is appended when it is truthy, that is neither
  \<^verbatim>\<open>None\<close> nor the empty string, and its lower-cased form differs from \<^verbatim>\<open>"default"\<close>.
\<close>

definition repo_id_parts :: "string \<Rightarrow> string \<Rightarrow> string option \<Rightarrow> string list" where
  "repo_id_parts username base variant =
     (case variant of
        None \<Rightarrow> [username, base]
      | Some v \<Rightarrow>
          if v \<noteq> [] \<and> str_lower v \<noteq> ''default'' then [username, base] @ [v]
          else [username, base])"

definition repo_id :: "string \<Rightarrow> string \<Rightarrow> string option \<Rightarrow> string" where
  "repo_id username base variant =
     str_strip ''_'' (str_replace ''__'' ''_'' (str_join ''_'' (repo_id_parts username base variant)))"

section \<open>Command line, files and libraries\<close>

text \<open>
  The namespace that \<^verbatim>\<open>parser.parse_args()\<close> returns has one attribute for each of the
  six \<^verbatim>\<open>add_argument\<close> calls of lines 42 to 67, and no other.
\<close>

record args =
  manifest_file :: string
  batch_num :: int
  hf_username :: string
  hf_base_dataset_name :: string
  hf_variant :: "string option"
  output_dir :: string

datatype py_value = PyNone | PyStr string | PyInt int

text \<open>Attribute lookup \<^verbatim>\<open>args.name\<close>; a name the parser did not define raises.\<close>

definition getattr :: "args \<Rightarrow> string \<Rightarrow> py_exception + py_value" where
  "getattr a name =
     (if name = ''manifest_file'' then Inr (PyStr (manifest_file a))
      else if name = ''batch_num'' then Inr (PyInt (batch_num a))
      else if name = ''hf_username'' then Inr (PyStr (hf_username a))
      else if name = ''hf_base_dataset_name'' then Inr (PyStr (hf_base_dataset_name a))
      else if name = ''hf_variant'' then
        Inr (case hf_variant a of None \<Rightarrow> PyNone | Some v \<Rightarrow> PyStr v)
      else if name = ''output_dir'' then Inr (PyStr (output_dir a))
      else Inl (AttributeError name))"

text \<open>
  An f-string evaluates its attribute lookups from left to right and raises at the first
  one that fails; the formatted text of a log message matters to nothing else.
\<close>

fun format_attrs :: "args \<Rightarrow> string list \<Rightarrow> py_exception + unit" where
  "format_attrs a [] = Inr ()"
| "format_attrs a (name # names) =
     (case getattr a name of Inl e \<Rightarrow> Inl e | Inr v \<Rightarrow> format_attrs a names)"

text \<open>\<^verbatim>\<open>str(n)\<close> for an integer, as the f-strings format \<^verbatim>\<open>args.batch_num\<close>.\<close>

fun str_of_nat :: "nat \<Rightarrow> string" where
  "str_of_nat n =
     (if n < 10 then [''0123456789'' ! n]
      else str_of_nat (n div 10) @ [''0123456789'' ! (n mod 10)])"

definition str_of_int :: "int \<Rightarrow> string" where
  "str_of_int i = (if i < 0 then ''-'' @ str_of_nat (nat (- i)) else str_of_nat (nat i))"

text \<open>\<^verbatim>\<open>os.path.join\<close> of two components and \<^verbatim>\<open>os.path.basename\<close>, on POSIX paths.\<close>

definition os_path_join :: "string \<Rightarrow> string \<Rightarrow> string" where
  "os_path_join a b =
     (if b \<noteq> [] \<and> hd b = CHR ''/'' then b
      else if a = [] \<or> last a = CHR ''/'' then a @ b
      else a @ ''/'' @ b)"

definition os_path_basename :: "string \<Rightarrow> string" where
  "os_path_basename p = rev (takeWhile (\<lambda>c. c \<noteq> CHR ''/'') (rev p))"

text \<open>
  A record of an input file dereferences to \<^verbatim>\<open>metadata.url\<close>: the struct \<^verbatim>\<open>metadata\<close> may be
  NULL (the record has no such object), and so may its field \<^verbatim>\<open>url\<close>. A row of the result
  has the columns \<^verbatim>\<open>url\<close> and \<^verbatim>\<open>domain\<close>, both nullable as far as their SQL type goes. The
  query has no \<^verbatim>\<open>ORDER BY\<close>, so its result, and the file written from it, is a multiset of
  rows.
\<close>

record metadata_struct =
  url :: "string option"

record json_record =
  metadata :: "metadata_struct option"

type_synonym row = "string option \<times> string option"

text \<open>
  The file system is a map from paths to files (directories and permissions are not part
  of it), and \<open>calls\<close> records, in order, the operations that the run has asked of DuckDB,
  pandas and the Hugging Face client.
\<close>

datatype file_content =
    ManifestCsv "(string \<times> string) list"
  | JsonLinesGz "json_record list"
  | Parquet "row multiset"
  | Partial

datatype call =
    DuckdbConnect
  | ReadCsv string
  | ExecuteCopy string string
  | DuckdbClose
  | CreateRepo string
  | UploadFile string string string string

record world =
  files :: "string \<rightharpoonup> file_content"
  calls :: "call list"

definition record_call :: "call \<Rightarrow> world \<Rightarrow> world" where
  "record_call c w = w\<lparr>calls := calls w @ [c]\<rparr>"

definition os_path_exists :: "string \<Rightarrow> world \<Rightarrow> bool" where
  "os_path_exists p w = (files w p \<noteq> None)"

text \<open>What \<^verbatim>\<open>os.remove(p)\<close> does to the file map when it succeeds.\<close>

definition os_remove :: "string \<Rightarrow> world \<Rightarrow> world" where
  "os_remove p w = w\<lparr>files := (files w)(p := None)\<rparr>"

text \<open>
  The libraries are parameters of the model, so that a theorem about \<open>main\<close> holds whatever
  they answer:
  \<^item> \<open>parse_args\<close>: \<^verbatim>\<open>argparse\<close> on the command line; it raises \<^verbatim>\<open>SystemExit\<close> on a
    command line it rejects;
  \<^item> \<open>makedirs\<close>: the exception of \<^verbatim>\<open>os.makedirs(path, exist_ok=True)\<close>, if it raises;
  \<^item> \<open>duckdb_connect\<close>: the exception of \<^verbatim>\<open>duckdb.connect()\<close>, if it raises;
  \<^item> \<open>create_function\<close>: the exception of \<^verbatim>\<open>con.create_function\<close>, if it raises;
  \<^item> \<open>read_csv\<close>: \<^verbatim>\<open>pd.read_csv\<close> of the manifest followed by the selection of the column
    \<^verbatim>\<open>local_json_filepath\<close>: the values of that column;
  \<^item> \<open>read_json\<close>: DuckDB's \<^verbatim>\<open>read_json\<close> on the text that the query gives it as its first
    argument: the records of each file it scanned;
  \<^item> \<open>bind_fault\<close>: the exception of the binder, if the column \<^verbatim>\<open>metadata.url\<close> does not
    bind in the schema that the engine infers from the records it scanned;
  \<^item> \<open>tldextract_extract\<close>: \<^verbatim>\<open>tldextract.extract\<close>;
  \<^item> \<open>write_fault\<close>: the exception of the writing half of \<^verbatim>\<open>COPY ... TO\<close>, if it raises;
  \<^item> \<open>partial_output\<close>: what a failed \<^verbatim>\<open>COPY ... TO\<close> leaves at its target path (\<open>None\<close>
    when it does not touch the path);
  \<^item> \<open>remove_fault\<close>: the exception of \<^verbatim>\<open>os.remove\<close>, if it raises (the path is a
    directory, the parent is not writable); the path then stays;
  \<^item> \<open>create_repo\<close>, \<open>upload_file\<close>: the exceptions of the two \<^verbatim>\<open>HfApi\<close> methods, if
    they raise.
\<close>

record env =
  parse_args :: "string list \<Rightarrow> raised + args"
  makedirs :: "string \<Rightarrow> world \<Rightarrow> py_exception option"
  duckdb_connect :: "world \<Rightarrow> py_exception option"
  create_function :: "world \<Rightarrow> py_exception option"
  read_csv :: "string \<Rightarrow> world \<Rightarrow> py_exception + py_value list"
  read_json :: "string \<Rightarrow> world \<Rightarrow> py_exception + json_record list list"
  bind_fault :: "json_record list \<Rightarrow> py_exception option"
  tldextract_extract :: tldextract
  write_fault :: "string \<Rightarrow> row multiset \<Rightarrow> world \<Rightarrow> py_exception option"
  partial_output :: "string \<Rightarrow> world \<Rightarrow> file_content option"
  remove_fault :: "string \<Rightarrow> world \<Rightarrow> py_exception option"
  create_repo :: "string \<Rightarrow> world \<Rightarrow> py_exception option"
  upload_file :: "string \<Rightarrow> string \<Rightarrow> string \<Rightarrow> string \<Rightarrow> world \<Rightarrow> py_exception option"

section \<open>The query\<close>

text \<open>
  The SQL function \<^verbatim>\<open>extract_domain\<close> that lines 87 to 89 register. No \<^verbatim>\<open>null_handling\<close> is
  given, so DuckDB's default applies: on a NULL argument the result is NULL and the
  Python function is not called, and a \<^verbatim>\<open>None\<close> that the Python function returns for an
  argument that is not NULL is an error of the query. An exception of the Python function
  is an error of the query as well.
\<close>

definition extract_domain :: "tldextract \<Rightarrow> string option \<Rightarrow> py_exception + string option" where
  "extract_domain tld u =
     (case u of
        None \<Rightarrow> Inr None
      | Some v \<Rightarrow>
          (case extract_domain_udf tld (Some v) of
             Inl e \<Rightarrow> Inl e
           | Inr None \<Rightarrow> Inl (LibraryError ''InvalidInputException: null_handling'')
           | Inr (Some d) \<Rightarrow> Inr (Some d)))"

text \<open>
  The SQL of lines 100 to 111: the common table expression \<^verbatim>\<open>urls\<close> selects
  \<^verbatim>\<open>metadata.url\<close> of every record, the outer query keeps the rows whose \<^verbatim>\<open>url\<close> is not
  NULL and computes \<^verbatim>\<open>extract_domain(url)\<close> on each. The query does not bind when no
  scanned record has a \<^verbatim>\<open>metadata\<close> object, and otherwise when the engine says so. The
  result is the multiset of the rows.
\<close>

definition metadata_url :: "json_record \<Rightarrow> string option" where
  "metadata_url r = (case metadata r of None \<Rightarrow> None | Some m \<Rightarrow> url m)"

definition urls :: "json_record list \<Rightarrow> string option list" where
  "urls records = map metadata_url records"

fun project_rows :: "tldextract \<Rightarrow> string option list \<Rightarrow> py_exception + row list" where
  "project_rows tld [] = Inr []"
| "project_rows tld (u # us) =
     (case extract_domain tld u of
        Inl e \<Rightarrow> Inl e
      | Inr d \<Rightarrow>
          (case project_rows tld us of
             Inl e \<Rightarrow> Inl e
           | Inr rows \<Rightarrow> Inr ((u, d) # rows)))"

definition select_rows :: "env \<Rightarrow> json_record list \<Rightarrow> py_exception + row multiset" where
  "select_rows env records =
     (if list_all (\<lambda>r. metadata r = None) records then Inl (LibraryError ''BinderException'')
      else
        (case bind_fault env records of
           Some e \<Rightarrow> Inl e
         | None \<Rightarrow>
             (case project_rows (tldextract_extract env)
                     (filter (\<lambda>u. u \<noteq> None) (urls records)) of
                Inl e \<Rightarrow> Inl e
              | Inr rows \<Rightarrow> Inr (mset rows))))"

text \<open>
  \<^verbatim>\<open>",".join(fpaths)\<close> of line 98 raises \<^verbatim>\<open>TypeError\<close> on a value that is not a string
  (pandas reads an empty cell as a missing value and an all-digit column as numbers).
\<close>

fun str_values :: "py_value list \<Rightarrow> py_exception + string list" where
  "str_values [] = Inr []"
| "str_values (PyStr s # vs) =
     (case str_values vs of Inl e \<Rightarrow> Inl e | Inr ss \<Rightarrow> Inr (s # ss))"
| "str_values (v # vs) = Inl (TypeError ''sequence item: expected str instance'')"

definition join_fpaths :: "py_value list \<Rightarrow> py_exception + string" where
  "join_fpaths vs = (case str_values vs of Inl e \<Rightarrow> Inl e | Inr ss \<Rightarrow> Inr (str_join '','' ss))"

text \<open>
  \<^verbatim>\<open>con.execute("COPY (query) TO 'output_parquet_file'")\<close> of line 115: DuckDB scans the
  files, evaluates the query and writes the rows to the target path. The query holds the
  joined paths between brackets inside one quoted string, \<^verbatim>\<open>read_json('[...]', ...)\<close>, and that
  text is what \<open>read_json\<close> is given. When the statement fails, the target path holds
  whatever \<open>partial_output\<close> says the engine left there.
\<close>

definition leave_partial :: "env \<Rightarrow> string \<Rightarrow> world \<Rightarrow> world" where
  "leave_partial env out w =
     (case partial_output env out w of
        None \<Rightarrow> w
      | Some f \<Rightarrow> w\<lparr>files := (files w)(out \<mapsto> f)\<rparr>)"

definition execute_copy :: "env \<Rightarrow> string \<Rightarrow> string \<Rightarrow> world \<Rightarrow> (py_exception + unit) \<times> world" where
  "execute_copy env fpaths out w0 =
     (let w = record_call (ExecuteCopy fpaths out) w0 in
      case read_json env (''['' @ fpaths @ '']'') w of
        Inl e \<Rightarrow> (Inl e, leave_partial env out w)
      | Inr file_records \<Rightarrow>
          (case select_rows env (concat file_records) of
             Inl e \<Rightarrow> (Inl e, leave_partial env out w)
           | Inr rows \<Rightarrow>
               (case write_fault env out rows w of
                  Some e \<Rightarrow> (Inl e, leave_partial env out w)
                | None \<Rightarrow> (Inr (), w\<lparr>files := (files w)(out \<mapsto> Parquet rows)\<rparr>))))"

section \<open>The batch run\<close>

text \<open>
  The body of the \<^verbatim>\<open>try\<close> statement of \<open>main\<close>, lines 86 to 118. Its third result says
  whether \<^verbatim>\<open>con\<close> was bound when the body ended, which is what the \<^verbatim>\<open>finally\<close> clause
  tests: it is not bound when \<^verbatim>\<open>duckdb.connect()\<close> itself raised, and bound from then on.
\<close>

definition try_body :: "env \<Rightarrow> args \<Rightarrow> string \<Rightarrow> world \<Rightarrow> (py_exception + unit) \<times> world \<times> bool" where
  "try_body env a output_parquet_file w0 =
     (let w1 = record_call DuckdbConnect w0 in
      case duckdb_connect env w1 of
        Some e \<Rightarrow> (Inl e, w1, False)
      | None \<Rightarrow>
          (case create_function env w1 of
             Some e \<Rightarrow> (Inl e, w1, True)
           | None \<Rightarrow>
               (let w2 = record_call (ReadCsv (manifest_file a)) w1 in
                case read_csv env (manifest_file a) w2 of
                  Inl e \<Rightarrow> (Inl e, w2, True)
                | Inr column \<Rightarrow>
                    (case join_fpaths column of
                       Inl e \<Rightarrow> (Inl e, w2, True)
                     | Inr fpaths \<Rightarrow>
                         (case execute_copy env fpaths output_parquet_file w2 of
                            (r, w3) \<Rightarrow> (r, w3, True))))))"

text \<open>The \<^verbatim>\<open>finally\<close> clause, lines 128 to 130: close the connection if there is one.\<close>

definition finally_close :: "bool \<Rightarrow> world \<Rightarrow> world" where
  "finally_close con w = (if con then record_call DuckdbClose w else w)"

text \<open>
  The whole \<^verbatim>\<open>try ... except Exception ... finally\<close> statement, lines 85 to 130. On an
  exception of the body the handler removes the output file if it exists and re-raises;
  when \<^verbatim>\<open>os.remove\<close> raises in the handler, the file stays and the exception of
  \<^verbatim>\<open>os.remove\<close> is the one that leaves the statement. The \<^verbatim>\<open>finally\<close> clause runs in every
  case.
\<close>

definition try_statement :: "env \<Rightarrow> args \<Rightarrow> string \<Rightarrow> world \<Rightarrow> (py_exception + unit) \<times> world" where
  "try_statement env a output_parquet_file w0 =
     (case try_body env a output_parquet_file w0 of
        (r, w1, con) \<Rightarrow>
          (case r of
             Inr u \<Rightarrow> (Inr u, finally_close con w1)
           | Inl e \<Rightarrow>
               if os_path_exists output_parquet_file w1
               then (case remove_fault env output_parquet_file w1 of
                       Some e' \<Rightarrow> (Inl e', finally_close con w1)
                     | None \<Rightarrow> (Inl e, finally_close con (os_remove output_parquet_file w1)))
               else (Inl e, finally_close con w1)))"

text \<open>
  \<^verbatim>\<open>upload_to_hf(args, parquet_filepath_to_upload)\<close>, lines 136 to 176. The handler of lines
  172 to 176 logs and re-raises, so an exception of the body is the exception of the call.
\<close>

definition upload_to_hf :: "env \<Rightarrow> args \<Rightarrow> string \<Rightarrow> world \<Rightarrow> (py_exception + unit) \<times> world" where
  "upload_to_hf env a parquet_filepath_to_upload w0 =
     (if \<not> os_path_exists parquet_filepath_to_upload w0 then (Inr (), w0)
      else
        (let rid = repo_id (hf_username a) (hf_base_dataset_name a) (hf_variant a);
             w1 = record_call (CreateRepo rid) w0
         in case create_repo env rid w1 of
              Some e \<Rightarrow> (Inl e, w1)
            | None \<Rightarrow>
                (let path_in_repo = ''data/'' @ os_path_basename parquet_filepath_to_upload;
                     commit_message =
                       ''Add extracted inner URLs batch '' @ hf_base_dataset_name a
                         @ '' batch '' @ str_of_int (batch_num a);
                     w2 = record_call
                            (UploadFile parquet_filepath_to_upload path_in_repo rid commit_message) w1
                 in case upload_file env parquet_filepath_to_upload path_in_repo rid
                           commit_message w2 of
                      Some e \<Rightarrow> (Inl e, w2)
                    | None \<Rightarrow> (Inr (), w2))))"

text \<open>
  \<open>main\<close>, lines 38 to 133. Between the creation of the output directory and the
  \<^verbatim>\<open>try\<close> statement stand two log calls: that of lines 78 to 80 formats
  \<^verbatim>\<open>args.batch_num\<close>, \<^verbatim>\<open>args.hf_base_dataset_name\<close> and \<^verbatim>\<open>args.manifest_file\<close>, that of lines
  81 to 83 formats \<^verbatim>\<open>args.json_inner_url_path\<close>.
\<close>

definition main :: "env \<Rightarrow> string list \<Rightarrow> world \<Rightarrow> (raised + unit) \<times> world" where
  "main env argv w0 =
     (case parse_args env argv of
        Inl r \<Rightarrow> (Inl r, w0)
      | Inr a \<Rightarrow>
          (case makedirs env (output_dir a) w0 of
             Some e \<Rightarrow> (Inl (Exception e), w0)
           | None \<Rightarrow>
               (let output_parquet_file =
                      os_path_join (output_dir a)
                        (hf_base_dataset_name a @ ''_extracted_inner_urls_batch_''
                           @ str_of_int (batch_num a) @ ''.parquet'')
                in case format_attrs a [''batch_num'', ''hf_base_dataset_name'', ''manifest_file''] of
                     Inl e \<Rightarrow> (Inl (Exception e), w0)
                   | Inr u0 \<Rightarrow>
                       (case format_attrs a [''json_inner_url_path''] of
                          Inl e \<Rightarrow> (Inl (Exception e), w0)
                        | Inr u1 \<Rightarrow>
                            (case try_statement env a output_parquet_file w0 of
                               (Inl e, w1) \<Rightarrow> (Inl (Exception e), w1)
                             | (Inr u2, w1) \<Rightarrow>
                                 (case upload_to_hf env a output_parquet_file w1 of
                                    (Inl e, w2) \<Rightarrow> (Inl (Exception e), w2)
                                  | (Inr u3, w2) \<Rightarrow> (Inr (), w2)))))))"

section \<open>A concrete environment\<close>

text \<open>
  To run the model on concrete inputs the libraries need concrete answers. The stand-ins
  below cover what the examples use: command lines made of \<^verbatim>\<open>--option value\<close> pairs with
  the options, the required ones, the integer type and the defaults of lines 42 to 67;
  a manifest and input files that are looked up in the file map; a handful of URLs for
  \<^verbatim>\<open>tldextract\<close>.
\<close>

definition option_strings :: "string list" where
  "option_strings =
     [''--manifest_file'', ''--batch_num'', ''--hf_username'', ''--hf_base_dataset_name'',
      ''--hf_variant'', ''--output_dir'']"

fun option_pairs :: "string list \<Rightarrow> (string \<times> string) list option" where
  "option_pairs [] = Some []"
| "option_pairs [k] = None"
| "option_pairs (k # v # rest) =
     (if k \<in> set option_strings
      then (case option_pairs rest of None \<Rightarrow> None | Some kvs \<Rightarrow> Some ((k, v) # kvs))
      else None)"

definition digit_value :: "char \<Rightarrow> nat option" where
  "digit_value c = map_of (zip ''0123456789'' [0, 1, 2, 3, 4, 5, 6, 7, 8, 9]) c"

fun digits_value :: "string \<Rightarrow> nat \<Rightarrow> nat option" where
  "digits_value [] acc = Some acc"
| "digits_value (c # cs) acc =
     (case digit_value c of None \<Rightarrow> None | Some d \<Rightarrow> digits_value cs (10 * acc + d))"

definition int_of_str :: "string \<Rightarrow> int option" where
  "int_of_str s = (if s = [] then None else map_option int (digits_value s 0))"

definition sample_parse_args :: "string list \<Rightarrow> raised + args" where
  "sample_parse_args argv =
     (case option_pairs argv of
        None \<Rightarrow> Inl (SystemExit 2)
      | Some kvs \<Rightarrow>
          (let given = map_of (rev kvs) in
           case given ''--manifest_file'' of
             None \<Rightarrow> Inl (SystemExit 2)
           | Some m \<Rightarrow>
               (case given ''--batch_num'' of
                  None \<Rightarrow> Inl (SystemExit 2)
                | Some b \<Rightarrow>
                    (case int_of_str b of
                       None \<Rightarrow> Inl (SystemExit 2)
                     | Some n \<Rightarrow>
                         (case given ''--hf_username'' of
                            None \<Rightarrow> Inl (SystemExit 2)
                          | Some u \<Rightarrow>
                              (case given ''--output_dir'' of
                                 None \<Rightarrow> Inl (SystemExit 2)
                               | Some d \<Rightarrow>
                                   Inr \<lparr>manifest_file = m, batch_num = n, hf_username = u,
                                        hf_base_dataset_name =
                                          (case given ''--hf_base_dataset_name'' of
                                             None \<Rightarrow> ''dolma_extracted_inner_urls''
                                           | Some x \<Rightarrow> x),
                                        hf_variant = given ''--hf_variant'',
                                        output_dir = d\<rparr>))))))"

definition sample_read_csv :: "string \<Rightarrow> world \<Rightarrow> py_exception + py_value list" where
  "sample_read_csv p w =
     (case files w p of
        Some (ManifestCsv entries) \<Rightarrow> Inr (map (\<lambda>entry. PyStr (snd entry)) entries)
      | _ \<Rightarrow> Inl (OSError p))"

text \<open>
  DuckDB reads the text it is given as one glob pattern, in which a bracket expression
  stands for a single character. The stand-in covers a pattern that is one bracket
  expression without ranges: it matches the files whose name is one of the characters
  between the brackets, and the scan fails when there is none.
\<close>

fun scan_files :: "(string \<rightharpoonup> file_content) \<Rightarrow> string list \<Rightarrow> py_exception + json_record list list" where
  "scan_files fs [] = Inr []"
| "scan_files fs (p # ps) =
     (case fs p of
        None \<Rightarrow> scan_files fs ps
      | Some (JsonLinesGz records) \<Rightarrow>
          (case scan_files fs ps of Inl e \<Rightarrow> Inl e | Inr rest \<Rightarrow> Inr (records # rest))
      | Some other \<Rightarrow> Inl (LibraryError p))"

definition sample_read_json :: "string \<Rightarrow> world \<Rightarrow> py_exception + json_record list list" where
  "sample_read_json pattern w =
     (case scan_files (files w) (map (\<lambda>c. [c]) (remdups (butlast (tl pattern)))) of
        Inl e \<Rightarrow> Inl e
      | Inr [] \<Rightarrow> Inl (LibraryError ''IOException: no files found'')
      | Inr (r # rs) \<Rightarrow> Inr (r # rs))"

definition sample_tldextract :: tldextract where
  "sample_tldextract u =
     (if u = ''https://sub.example.co.uk/page''
      then Inr \<lparr>subdomain = ''sub'', domain = ''example'', suffix = ''co.uk''\<rparr>
      else if u = ''localhost''
      then Inr \<lparr>subdomain = [], domain = ''localhost'', suffix = []\<rparr>
      else if u = []
      then Inr \<lparr>subdomain = [], domain = [], suffix = []\<rparr>
      else Inl (LibraryError u))"

definition sample_env :: env where
  "sample_env =
     \<lparr>parse_args = sample_parse_args,
      makedirs = (\<lambda>p w. if p = [] then Some (OSError p) else None),
      duckdb_connect = (\<lambda>w. None),
      create_function = (\<lambda>w. None),
      read_csv = sample_read_csv,
      read_json = sample_read_json,
      bind_fault = (\<lambda>records. None),
      tldextract_extract = sample_tldextract,
      write_fault = (\<lambda>out rows w. None),
      partial_output = (\<lambda>out w. Some Partial),
      remove_fault = (\<lambda>p w. None),
      create_repo = (\<lambda>rid w. None),
      upload_file = (\<lambda>p path_in_repo rid message w. None)\<rparr>"

text \<open>
  The end-to-end scenario: a manifest of two files with one record each, the first with
  a URL, the second with an empty \<^verbatim>\<open>metadata\<close> object.
\<close>

definition scenario_argv :: "string list" where
  "scenario_argv =
     [''--manifest_file'', ''manifest.csv'', ''--batch_num'', ''7'',
      ''--hf_username'', ''alice'', ''--output_dir'', ''out'']"

definition scenario_args :: args where
  "scenario_args =
     \<lparr>manifest_file = ''manifest.csv'', batch_num = 7, hf_username = ''alice'',
      hf_base_dataset_name = ''dolma_extracted_inner_urls'', hf_variant = None,
      output_dir = ''out''\<rparr>"

definition scenario_output :: string where
  "scenario_output = ''out/dolma_extracted_inner_urls_extracted_inner_urls_batch_7.parquet''"

definition scenario_files :: "string \<rightharpoonup> file_content" where
  "scenario_files =
     [''manifest.csv'' \<mapsto> ManifestCsv [(''https://host/a'', ''a.json.gz''), (''https://host/b'', ''b.json.gz'')],
      ''a.json.gz'' \<mapsto> JsonLinesGz [\<lparr>metadata = Some \<lparr>url = Some ''https://sub.example.co.uk/page''\<rparr>\<rparr>],
      ''b.json.gz'' \<mapsto> JsonLinesGz [\<lparr>metadata = Some \<lparr>url = None\<rparr>\<rparr>]]"

definition scenario_world :: world where
  "scenario_world = \<lparr>files = scenario_files, calls = []\<rparr>"

text \<open>
  The same batch when the second input file is missing and an output file of an earlier
  attempt is still at the output path.
\<close>

definition stale_output_world :: world where
  "stale_output_world =
     \<lparr>files = (scenario_files(''b.json.gz'' := None))(scenario_output \<mapsto> Partial),
      calls = []\<rparr>"

section \<open>The public-suffix split, from the specification\<close>

text \<open>
  Modelled from the spec: \<^verbatim>\<open>tldextract.extract\<close> and the public suffix list it consults are
  a library and its data, and are not among the sources. The specification describes the
  split as "the longest registered public suffix matching rules", with the registered
  domain "the combination of a domain label and its public suffix, ignoring subdomains":
  of the labels of the host, the suffix is the longest trailing run that is a registered
  public suffix, the domain label is the label before it, and what stands before that is
  the subdomain. The suffix list is a parameter, a predicate on lists of labels. The host
  of a URL is the text between the scheme and the first of \<^verbatim>\<open>/\<close>, \<^verbatim>\<open>?\<close> and \<^verbatim>\<open>#\<close>, without
  the user information before \<^verbatim>\<open>@\<close> and without the port after \<^verbatim>\<open>:\<close>.
\<close>

definition scheme_chars :: string where
  "scheme_chars = ''abcdefghijklmnopqrstuvwxyzABCDEFGHIJKLMNOPQRSTUVWXYZ0123456789+.-''"

definition after_scheme :: "string \<Rightarrow> string" where
  "after_scheme u =
     (let rest = dropWhile (\<lambda>c. c \<in> set scheme_chars) u
      in if take 3 rest = ''://'' then drop 3 rest else u)"

definition host_of :: "string \<Rightarrow> string" where
  "host_of u =
     takeWhile (\<lambda>c. c \<noteq> CHR '':'')
       (rev (takeWhile (\<lambda>c. c \<noteq> CHR ''@'')
          (rev (takeWhile (\<lambda>c. c \<notin> set ''/?#'') (after_scheme u)))))"

text \<open>\<^verbatim>\<open>s.split(c)\<close>: the labels of a host are \<^verbatim>\<open>host.split(".")\<close>.\<close>

fun split_on :: "char \<Rightarrow> string \<Rightarrow> string list" where
  "split_on c [] = [[]]"
| "split_on c (x # xs) =
     (if x = c then [] # split_on c xs
      else (case split_on c xs of [] \<Rightarrow> [[x]] | p # ps \<Rightarrow> (x # p) # ps))"

fun suffix_split :: "(string list \<Rightarrow> bool) \<Rightarrow> string list \<Rightarrow> string list \<times> string list" where
  "suffix_split psl [] = ([], [])"
| "suffix_split psl (l # ls) =
     (if psl (l # ls) then ([], l # ls)
      else (case suffix_split psl ls of (front, suf) \<Rightarrow> (l # front, suf)))"

definition spec_tldextract :: "(string list \<Rightarrow> bool) \<Rightarrow> tldextract" where
  "spec_tldextract psl u =
     (case suffix_split psl (split_on CHR ''.'' (host_of u)) of
        (front, suf) \<Rightarrow>
          Inr \<lparr>subdomain = str_join ''.'' (butlast front),
               domain = (if front = [] then [] else last front),
               suffix = str_join ''.'' suf\<rparr>)"

definition sample_psl :: "string list \<Rightarrow> bool" where
  "sample_psl labels = (labels \<in> set [[''uk''], [''co'', ''uk''], [''com'']])"

section \<open>Helper lemmas\<close>

lemma extract_domain_udf_returns: "\<exists>r. extract_domain_udf tld x = Inr r"
  by (auto simp: extract_domain_udf_def try_except_def split: option.splits sum.splits)

lemma host_of_no_delimiter:
  "c \<in> set (host_of u) \<Longrightarrow> c \<noteq> CHR '':'' \<and> c \<noteq> CHR ''@'' \<and> c \<notin> set ''/?#''"
proof -
  assume c: "c \<in> set (host_of u)"
  let ?x = "takeWhile (\<lambda>c. c \<notin> set ''/?#'') (after_scheme u)"
  let ?y = "takeWhile (\<lambda>c. c \<noteq> CHR ''@'') (rev ?x)"
  from c have 1: "c \<noteq> CHR '':''" and 2: "c \<in> set (rev ?y)"
    unfolding host_of_def by (auto dest: set_takeWhileD)
  from 2 have "c \<in> set ?y" by simp
  then have 3: "c \<noteq> CHR ''@''" and 4: "c \<in> set (rev ?x)"
    by (auto dest: set_takeWhileD)
  from 4 have "c \<in> set ?x" by simp
  then have "c \<notin> set ''/?#''" by (auto dest: set_takeWhileD)
  with 1 3 show ?thesis by simp
qed

lemma after_scheme_https: "after_scheme (''https://'' @ x) = x"
  by (simp add: after_scheme_def scheme_chars_def)

lemma host_of_https:
  assumes "\<forall>c \<in> set x. c \<noteq> CHR '':'' \<and> c \<noteq> CHR ''@'' \<and> c \<notin> set ''/?#''"
  shows "host_of (''https://'' @ x) = x"
proof -
  have a: "takeWhile (\<lambda>c. c \<notin> set ''/?#'') x = x"
    using assms by (simp add: takeWhile_eq_all_conv)
  have b: "takeWhile (\<lambda>c. c \<noteq> CHR ''@'') (rev x) = rev x"
    using assms by (simp add: takeWhile_eq_all_conv)
  have c: "takeWhile (\<lambda>c. c \<noteq> CHR '':'') x = x"
    using assms by (simp add: takeWhile_eq_all_conv)
  show ?thesis
    unfolding host_of_def after_scheme_https by (simp only: a b c rev_rev_ident)
qed

lemma split_on_not_Nil: "split_on c s \<noteq> []"
  by (induction s) (auto split: list.splits)

lemma split_on_labels:
  "l \<in> set (split_on c s) \<Longrightarrow> c \<notin> set l \<and> set l \<subseteq> set s"
proof (induction s arbitrary: l)
  case Nil
  then show ?case by simp
next
  case (Cons x xs)
  show ?case
  proof (cases "x = c")
    case True
    with Cons show ?thesis by auto
  next
    case False
    obtain p ps where ps: "split_on c xs = p # ps"
      using split_on_not_Nil by (cases "split_on c xs") auto
    with False Cons.prems have "l = x # p \<or> l \<in> set ps" by simp
    then show ?thesis
    proof
      assume "l = x # p"
      moreover have "c \<notin> set p \<and> set p \<subseteq> set xs" using Cons.IH [of p] ps by simp
      ultimately show ?thesis using False by auto
    next
      assume "l \<in> set ps"
      then have "c \<notin> set l \<and> set l \<subseteq> set xs" using Cons.IH [of l] ps by simp
      then show ?thesis by auto
    qed
  qed
qed

lemma split_on_label_sep:
  "c \<notin> set l \<Longrightarrow> split_on c (l @ c # rest) = l # split_on c rest"
  by (induction l) auto

lemma split_on_label: "c \<notin> set l \<Longrightarrow> split_on c l = [l]"
  by (induction l) auto

lemma split_on_str_join:
  "ls \<noteq> [] \<Longrightarrow> \<forall>l \<in> set ls. c \<notin> set l \<Longrightarrow> split_on c (str_join [c] ls) = ls"
proof (induction "[c]" ls rule: str_join.induct)
  case 1
  then show ?case by simp
next
  case (2 p)
  then show ?case by (simp add: split_on_label)
next
  case (3 p q ps)
  then show ?case by (simp add: split_on_label_sep)
qed

lemma set_str_join: "set (str_join sep ls) \<subseteq> set sep \<union> \<Union> (set ` set ls)"
  by (induction sep ls rule: str_join.induct) auto

lemma suffix_split_append: "suffix_split psl ls = (b, s) \<Longrightarrow> ls = b @ s"
  by (induction ls arbitrary: b s) (auto split: if_splits prod.splits)

lemma suffix_split_registered: "suffix_split psl ls = (b, s) \<Longrightarrow> s \<noteq> [] \<Longrightarrow> psl s"
  by (induction ls arbitrary: b s) (auto split: if_splits prod.splits)

lemma suffix_split_longest:
  "suffix_split psl ls = (b, s) \<Longrightarrow> b \<noteq> [] \<Longrightarrow> \<not> psl (last b # s)"
proof (induction ls arbitrary: b s)
  case Nil
  then show ?case by simp
next
  case (Cons l ls)
  from Cons.prems have n: "\<not> psl (l # ls)" by (auto split: if_splits)
  obtain b' s' where r: "suffix_split psl ls = (b', s')" by (cases "suffix_split psl ls")
  with n Cons.prems have b: "b = l # b'" and s: "s = s'" by auto
  show ?case
  proof (cases "b' = []")
    case True
    with r have "ls = s'" using suffix_split_append by fastforce
    with n b s True show ?thesis by simp
  next
    case False
    with Cons.IH [OF r] b s show ?thesis by simp
  qed
qed

lemma suffix_split_registered_domain:
  assumes "\<not> psl (d # s)" "psl s" "s \<noteq> []"
  shows "suffix_split psl (d # s) = ([d], s)"
proof -
  from assms(3) obtain x xs where "s = x # xs" by (cases s) auto
  with assms(2) have "suffix_split psl s = ([], s)" by simp
  with assms(1) show ?thesis by simp
qed


lemma sample_parse_scenario: "sample_parse_args scenario_argv = Inr scenario_args"
  by (simp add: sample_parse_args_def scenario_argv_def scenario_args_def option_strings_def
      int_of_str_def digit_value_def)

lemma scenario_output_path:
  "os_path_join (output_dir scenario_args)
     (hf_base_dataset_name scenario_args @ ''_extracted_inner_urls_batch_''
        @ str_of_int (batch_num scenario_args) @ ''.parquet'') = scenario_output"
  by (simp add: os_path_join_def scenario_args_def scenario_output_def str_of_int_def)

text \<open>
  Once the \<^verbatim>\<open>try\<close> statement is entered, its handler does the clean-up: when the body
  raises and \<^verbatim>\<open>os.remove\<close> does not, the statement re-raises the exception of the body and
  the output path does not exist afterwards, whatever the failed export had left there.
\<close>

lemma try_statement_cleanup:
  "fst (try_body env a out w) = Inl e \<Longrightarrow>
   remove_fault env out (fst (snd (try_body env a out w))) = None \<Longrightarrow>
     fst (try_statement env a out w) = Inl e
     \<and> \<not> os_path_exists out (snd (try_statement env a out w))"
  by (cases "try_body env a out w")
    (auto simp: try_statement_def finally_close_def os_path_exists_def os_remove_def
      record_call_def)

section \<open>The claims\<close>

text \<open>
  C1. The end-to-end scenario (a manifest of two files, one record each,
  \<^verbatim>\<open>{"metadata":{"url":"https://sub.example.co.uk/page"}}\<close> and \<^verbatim>\<open>{"metadata":{}}\<close>) is
  expected to leave an output file with the single row
  \<^verbatim>\<open>("https://sub.example.co.uk/page", "example.co.uk")\<close>. Run on that scenario, \<open>main\<close>
  raises \<^verbatim>\<open>AttributeError\<close> at the log call of lines 81 to 83: the world is as it was, no
  library of the pipeline has been called and there is no output file.
\<close>

theorem main_scenario_attribute_error:
  "main sample_env scenario_argv scenario_world =
     (Inl (Exception (AttributeError ''json_inner_url_path'')), scenario_world)
   \<and> files scenario_world scenario_output = None"
  by (simp add: main_def sample_env_def sample_parse_scenario getattr_def
      scenario_world_def scenario_files_def scenario_output_def scenario_args_def)

text \<open>
  C2, as amended. Every invocation of \<open>main\<close> ends in an exception and leaves the files
  and the record of library calls as they were: the manifest is not read, nothing is
  extracted, exported or uploaded. The exception is the \<^verbatim>\<open>AttributeError\<close> of
  \<^verbatim>\<open>args.json_inner_url_path\<close> whenever the command line parses and the output directory
  can be created; otherwise it is the one that \<^verbatim>\<open>argparse\<close> or \<^verbatim>\<open>os.makedirs\<close> raised.
\<close>

theorem main_never_reaches_pipeline:
  "\<exists>r. main env argv w = (Inl r, w)
     \<and> (\<forall>a. parse_args env argv = Inr a \<and> makedirs env (output_dir a) w = None
            \<longrightarrow> r = Exception (AttributeError ''json_inner_url_path''))"
  by (auto simp: main_def getattr_def split: sum.splits option.splits)

theorem main_never_reaches_pipeline_witness:
  "parse_args sample_env scenario_argv = Inr scenario_args
   \<and> makedirs sample_env (output_dir scenario_args) scenario_world = None
   \<and> main sample_env scenario_argv scenario_world
       = (Inl (Exception (AttributeError ''json_inner_url_path'')), scenario_world)"
proof -
  have p: "parse_args sample_env scenario_argv = Inr scenario_args"
    by (simp add: sample_env_def sample_parse_scenario)
  have m: "makedirs sample_env (output_dir scenario_args) scenario_world = None"
    by (simp add: sample_env_def scenario_args_def)
  from main_never_reaches_pipeline [of sample_env scenario_argv scenario_world] p m
  have "main sample_env scenario_argv scenario_world
          = (Inl (Exception (AttributeError ''json_inner_url_path'')), scenario_world)"
    by auto
  with p m show ?thesis by simp
qed

text \<open>
  The claim as stated names the attribute lookup as the exception of every invocation.
  On an empty command line the required options are missing, \<^verbatim>\<open>argparse\<close> exits with
  status 2 and \<open>main\<close> raises \<^verbatim>\<open>SystemExit\<close> instead.
\<close>

theorem main_empty_argv_counterexample:
  "main sample_env [] scenario_world = (Inl (SystemExit 2), scenario_world)
   \<and> SystemExit 2 \<noteq> Exception (AttributeError ''json_inner_url_path'')"
  by (simp add: main_def sample_env_def sample_parse_args_def)

text \<open>
  C3. A batch run in which an input file of the manifest does not exist is expected to
  fail and to leave no file at the output path. Run on a manifest whose second file is
  missing, with the file of an earlier attempt at the output path, \<open>main\<close> raises
  \<^verbatim>\<open>AttributeError\<close> at the log call of lines 81 to 83, before the \<^verbatim>\<open>try\<close> statement whose
  handler removes the output file: after the run the file is still at the output path.
\<close>

theorem main_missing_input_stale_output:
  "files stale_output_world ''b.json.gz'' = None
   \<and> os_path_exists scenario_output stale_output_world
   \<and> main sample_env scenario_argv stale_output_world =
       (Inl (Exception (AttributeError ''json_inner_url_path'')), stale_output_world)
   \<and> os_path_exists scenario_output (snd (main sample_env scenario_argv stale_output_world))"
  by (simp add: main_def sample_env_def sample_parse_scenario getattr_def os_path_exists_def
      stale_output_world_def scenario_files_def scenario_output_def scenario_args_def)

text \<open>
  C4. \<open>extract_domain_udf\<close> never raises: it returns a value on every input and for every
  behaviour of \<^verbatim>\<open>tldextract.extract\<close>. The value is absent when the input is absent, when
  the library raises, and when the domain label or the suffix label is empty.
\<close>

theorem extract_domain_udf_never_raises:
  "(\<exists>r. extract_domain_udf tld x = Inr r)
   \<and> extract_domain_udf tld None = Inr None
   \<and> (\<forall>u e. tld u = Inl e \<longrightarrow> extract_domain_udf tld (Some u) = Inr None)
   \<and> (\<forall>u r. tld u = Inr r \<and> (domain r = [] \<or> suffix r = [])
         \<longrightarrow> extract_domain_udf tld (Some u) = Inr None)"
  by (auto simp: extract_domain_udf_def try_except_def split: option.splits sum.splits)

theorem extract_domain_udf_never_raises_witness:
  "sample_tldextract ''not a url'' = Inl (LibraryError ''not a url'')
   \<and> extract_domain_udf sample_tldextract (Some ''not a url'') = Inr None
   \<and> sample_tldextract ''localhost'' = Inr \<lparr>subdomain = [], domain = ''localhost'', suffix = []\<rparr>
   \<and> extract_domain_udf sample_tldextract (Some ''localhost'') = Inr None
   \<and> extract_domain_udf sample_tldextract None = Inr None"
proof -
  have a: "sample_tldextract ''not a url'' = Inl (LibraryError ''not a url'')"
    by (simp add: sample_tldextract_def)
  have b: "sample_tldextract ''localhost''
             = Inr \<lparr>subdomain = [], domain = ''localhost'', suffix = []\<rparr>"
    by (simp add: sample_tldextract_def)
  from extract_domain_udf_never_raises [of sample_tldextract None] a b
  show ?thesis by simp
qed

text \<open>
  C5. When \<^verbatim>\<open>tldextract.extract\<close> yields a non-empty domain label and a non-empty suffix
  label, \<open>extract_domain_udf\<close> returns the two joined by a dot. For a URL with the host
  \<^verbatim>\<open>sub.example.co.uk\<close>, whose longest public suffix is \<^verbatim>\<open>co.uk\<close>, that is
  \<^verbatim>\<open>example.co.uk\<close>.
\<close>

theorem extract_domain_udf_registered_domain:
  "tld u = Inr r \<Longrightarrow> domain r \<noteq> [] \<Longrightarrow> suffix r \<noteq> [] \<Longrightarrow>
     extract_domain_udf tld (Some u) = Inr (Some (domain r @ ''.'' @ suffix r))"
  by (simp add: extract_domain_udf_def try_except_def)

theorem extract_domain_udf_registered_domain_witness:
  "sample_tldextract ''https://sub.example.co.uk/page''
     = Inr \<lparr>subdomain = ''sub'', domain = ''example'', suffix = ''co.uk''\<rparr>
   \<and> extract_domain_udf sample_tldextract (Some ''https://sub.example.co.uk/page'')
       = Inr (Some ''example.co.uk'')"
proof -
  have t: "sample_tldextract ''https://sub.example.co.uk/page''
             = Inr \<lparr>subdomain = ''sub'', domain = ''example'', suffix = ''co.uk''\<rparr>"
    by (simp add: sample_tldextract_def)
  from extract_domain_udf_registered_domain
         [of sample_tldextract "''https://sub.example.co.uk/page''"
             "\<lparr>subdomain = ''sub'', domain = ''example'', suffix = ''co.uk''\<rparr>"] t
  show ?thesis by simp
qed

text \<open>
  C6. With the split of the host modelled from the specification, and for every suffix
  list: a second run of \<open>extract_domain_udf\<close> on a URL returns what the first returned
  (the result is a function of the URL and of the suffix list alone), and when a URL
  resolves to a registered domain \<open>d\<close>, the URL \<^verbatim>\<open>https://d\<close> resolves to \<open>d\<close> again.
\<close>

theorem extract_domain_udf_idempotent:
  assumes "extract_domain_udf (spec_tldextract psl) (Some u) = Inr (Some d)"
    and "extract_domain_udf (spec_tldextract psl) (Some u) = Inr again"
  shows "again = Some d
    \<and> extract_domain_udf (spec_tldextract psl) (Some (''https://'' @ d)) = Inr (Some d)"
proof -
  from assms have same: "again = Some d" by simp
  let ?ls = "split_on CHR ''.'' (host_of u)"
  obtain b s where bs: "suffix_split psl ?ls = (b, s)" by (cases "suffix_split psl ?ls")
  let ?dom = "if b = [] then [] else last b"
  from assms(1) bs have dom: "?dom \<noteq> []" and suf: "str_join ''.'' s \<noteq> []"
    and d: "d = ?dom @ ''.'' @ str_join ''.'' s"
    by (auto simp: extract_domain_udf_def try_except_def spec_tldextract_def split: if_splits)
  from dom have b: "b \<noteq> []" by auto
  from suf have s: "s \<noteq> []" by auto
  from b have domeq: "?dom = last b" by simp
  have ls: "?ls = b @ s" using suffix_split_append [OF bs] .
  have lab: "\<And>l. l \<in> set ?ls \<Longrightarrow> CHR ''.'' \<notin> set l \<and> set l \<subseteq> set (host_of u)"
    using split_on_labels by blast
  have dom_in: "last b \<in> set ?ls" using b ls by simp
  have s_in: "set s \<subseteq> set ?ls" using ls by simp
  have join: "d = str_join ''.'' (last b # s)"
    using d s domeq by (cases s) auto
  have labels: "\<forall>l \<in> set (last b # s). CHR ''.'' \<notin> set l"
    using lab dom_in s_in by auto
  have chars: "\<forall>c \<in> set d. c \<noteq> CHR '':'' \<and> c \<noteq> CHR ''@'' \<and> c \<notin> set ''/?#''"
  proof
    fix c assume "c \<in> set d"
    with join set_str_join [of "''.''" "last b # s"]
    have "c = CHR ''.'' \<or> (\<exists>l \<in> set (last b # s). c \<in> set l)" by auto
    then show "c \<noteq> CHR '':'' \<and> c \<noteq> CHR ''@'' \<and> c \<notin> set ''/?#''"
    proof
      assume "c = CHR ''.''"
      then show ?thesis by simp
    next
      assume "\<exists>l \<in> set (last b # s). c \<in> set l"
      then obtain l where "l \<in> set (last b # s)" "c \<in> set l" by blast
      with dom_in s_in have "l \<in> set ?ls" by auto
      with lab \<open>c \<in> set l\<close> have "c \<in> set (host_of u)" by blast
      then show ?thesis by (rule host_of_no_delimiter)
    qed
  qed
  have host: "host_of (''https://'' @ d) = d" using chars by (rule host_of_https)
  have split: "split_on CHR ''.'' d = last b # s"
    unfolding join using labels by (intro split_on_str_join) auto
  have "suffix_split psl (last b # s) = ([last b], s)"
    using suffix_split_longest [OF bs b] suffix_split_registered [OF bs s] s
    by (rule suffix_split_registered_domain)
  with host split dom suf d domeq same show ?thesis
    by (simp add: extract_domain_udf_def try_except_def spec_tldextract_def)
qed

theorem extract_domain_udf_idempotent_witness:
  "extract_domain_udf (spec_tldextract sample_psl) (Some ''https://sub.example.co.uk/page'')
     = Inr (Some ''example.co.uk'')
   \<and> extract_domain_udf (spec_tldextract sample_psl) (Some ''https://example.co.uk'')
       = Inr (Some ''example.co.uk'')"
proof -
  have h: "extract_domain_udf (spec_tldextract sample_psl) (Some ''https://sub.example.co.uk/page'')
             = Inr (Some ''example.co.uk'')"
    by (simp add: extract_domain_udf_def try_except_def spec_tldextract_def host_of_def
        after_scheme_def scheme_chars_def sample_psl_def)
  from extract_domain_udf_idempotent [OF h h] h show ?thesis by simp
qed

text \<open>
  C7, as amended. The repository identifier of \<^verbatim>\<open>("alice", "mydata", None)\<close> and of
  \<^verbatim>\<open>("alice", "mydata", "default")\<close> is \<^verbatim>\<open>alice_mydata\<close>; that of
  \<^verbatim>\<open>("alice__mydata", "v2", "v2")\<close> is \<^verbatim>\<open>alice_mydata_v2_v2\<close>: the doubled separator is
  collapsed, and the base name and the variant are both joined on.
\<close>

theorem repo_id_test_vectors:
  "repo_id ''alice'' ''mydata'' None = ''alice_mydata''
   \<and> repo_id ''alice'' ''mydata'' (Some ''default'') = ''alice_mydata''
   \<and> repo_id ''alice__mydata'' ''v2'' (Some ''v2'') = ''alice_mydata_v2_v2''"
  by (simp add: repo_id_def repo_id_parts_def str_strip_def str_lower_def char_lower_def)

text \<open>The third vector as the claim states it, \<^verbatim>\<open>alice_mydata_v2\<close>, is not what is computed.\<close>

theorem repo_id_third_vector_counterexample:
  "repo_id ''alice__mydata'' ''v2'' (Some ''v2'') \<noteq> ''alice_mydata_v2''"
  by (simp add: repo_id_def repo_id_parts_def str_strip_def str_lower_def char_lower_def)

text \<open>
  C8, as amended. The variant is left out of the parts of the identifier when it is
  absent, when it is the empty string, and when its lower-cased form is \<^verbatim>\<open>default\<close> (so
  \<^verbatim>\<open>Default\<close> and \<^verbatim>\<open>DEFAULT\<close> are left out too); every other variant is appended after the
  user name and the base name.
\<close>

theorem repo_id_parts_variant:
  "(variant = None \<or> variant = Some [] \<or> map_option str_lower variant = Some ''default''
      \<longrightarrow> repo_id_parts username base variant = [username, base])
   \<and> (\<forall>v. variant = Some v \<and> v \<noteq> [] \<and> str_lower v \<noteq> ''default''
      \<longrightarrow> repo_id_parts username base variant = [username, base, v])"
  by (auto simp: repo_id_parts_def split: option.splits)

theorem repo_id_parts_variant_witness:
  "str_lower ''Default'' = ''default''
   \<and> repo_id_parts ''alice'' ''mydata'' (Some ''Default'') = [''alice'', ''mydata'']
   \<and> str_lower ''v2'' = ''v2''
   \<and> repo_id_parts ''alice'' ''mydata'' (Some ''v2'') = [''alice'', ''mydata'', ''v2'']"
proof -
  have a: "str_lower ''Default'' = ''default''"
    by (simp add: str_lower_def char_lower_def)
  have b: "str_lower ''v2'' = ''v2''"
    by (simp add: str_lower_def char_lower_def)
  from repo_id_parts_variant [of "Some ''Default''" "''alice''" "''mydata''"] a
  have c: "repo_id_parts ''alice'' ''mydata'' (Some ''Default'') = [''alice'', ''mydata'']"
    by simp
  from repo_id_parts_variant [of "Some ''v2''" "''alice''" "''mydata''"] b
  have d: "repo_id_parts ''alice'' ''mydata'' (Some ''v2'') = [''alice'', ''mydata'', ''v2'']"
    by simp
  from a b c d show ?thesis by simp
qed

text \<open>
  The claim as stated appends every variant other than the literal \<^verbatim>\<open>default\<close>, the case
  variants included. \<^verbatim>\<open>DEFAULT\<close> is not that literal, and it is left out.
\<close>

theorem repo_id_parts_uppercase_counterexample:
  "''DEFAULT'' \<noteq> ''default''
   \<and> repo_id_parts ''alice'' ''mydata'' (Some ''DEFAULT'') = [''alice'', ''mydata'']
   \<and> repo_id ''alice'' ''mydata'' (Some ''DEFAULT'') = ''alice_mydata''"
  by (simp add: repo_id_def repo_id_parts_def str_strip_def str_lower_def char_lower_def)



text \<open>
  C10. When the file to upload does not exist, \<open>upload_to_hf\<close> returns normally and
  changes nothing: neither \<^verbatim>\<open>create_repo\<close> nor \<^verbatim>\<open>upload_file\<close> is called.
\<close>

theorem upload_to_hf_missing_file:
  "\<not> os_path_exists p w \<Longrightarrow> upload_to_hf env a p w = (Inr (), w)"
  by (simp add: upload_to_hf_def)

theorem upload_to_hf_missing_file_witness:
  "\<not> os_path_exists scenario_output scenario_world
   \<and> upload_to_hf sample_env scenario_args scenario_output scenario_world
       = (Inr (), scenario_world)"
proof -
  have h: "\<not> os_path_exists scenario_output scenario_world"
    by (simp add: os_path_exists_def scenario_world_def scenario_files_def scenario_output_def)
  from upload_to_hf_missing_file [OF h] h show ?thesis by simp
qed

end
